theory Spec2Isabelle
  imports
    Complex_Main
    "HOL-Library.Multiset"
    "HOL-Library.Char_ord"
    "HOL-Library.List_Lexorder"
    "HOL-Library.Product_Lexorder"
begin

section \<open>Python values, exceptions and effects\<close>

text \<open>
  The program is the single module \<^verbatim>\<open>app.py\<close>: a Telegram bot with three manager
  classes. Every call that leaves the module (Fernet, Redis, aiohttp, the Solana client,
  Telegram, a few builtins) is a field of a record that stands for the object or module
  the source calls, so a statement about a function of the module holds for every
  behaviour of its collaborators.

  A Python \<^verbatim>\<open>str\<close> is represented by its code units in generalised UTF-8 (UTF-8 in
  which a lone surrogate, which UTF-8 proper excludes, has its three-byte form) and a
  \<^verbatim>\<open>bytes\<close> object by its bytes, both as \<^typ>\<open>char list\<close> (a \<^typ>\<open>char\<close> is eight bits).
  Comparing two such lists lexicographically is comparing the strings by code point.
\<close>

type_synonym bytes = string

text \<open>The exceptions the module can raise, by class. \<open>LibraryError\<close> is an exception
  raised inside a collaborator (a network failure, an RPC error), named by its class.\<close>

datatype py_error =
    NameError string
  | KeyError string
  | TypeError
  | ValueError
  | IndexError
  | AttributeError
  | UnicodeDecodeError
  | UnicodeEncodeError
  | InvalidToken
  | LibraryError string

text \<open>The values that are typed dynamically in the source: the \<^verbatim>\<open>page\<close> argument
  (an \<^verbatim>\<open>int\<close> by default, a \<^verbatim>\<open>str\<close> when it comes from the command arguments) and the
  fields of a Redis hash (\<^verbatim>\<open>str\<close> or \<^verbatim>\<open>bytes\<close>, as the client is configured).\<close>

datatype pyval = PInt int | PStr string | PBytes bytes

type_synonym pydict = "(pyval \<times> pyval) list"

text \<open>A decoded JSON document. A \<open>JObject\<close> holds the items of the parsed \<^verbatim>\<open>dict\<close>,
  whose keys are distinct.\<close>

datatype json =
    JNull
  | JBool bool
  | JNumber rat
  | JString string
  | JArray "json list"
  | JObject "(string \<times> json) list"

record keypair =
  public_key :: bytes
  secret_key :: bytes

text \<open>A Solana transaction as the client library holds it: the recent blockhash that
  anchors it to the chain state (its 32 bytes), the serialised message and the
  signatures.\<close>

record transaction =
  recent_blockhash :: string
  message_bytes :: bytes
  signatures :: "bytes list"

text \<open>An inline keyboard: rows of buttons, each a label and its callback data.\<close>

type_synonym keyboard = "(string \<times> string) list list"

text \<open>The calls whose effect is visible outside the module or touches key material,
  in the order the source makes them. A request, a broadcast and a call to Fernet are
  logged when they are made; \<open>SignTransaction\<close> and \<open>RedisHmset\<close> are logged when the call
  has returned, that is when the transaction was signed and the hash was written.\<close>

datatype event =
    Sleep rat
  | HttpPost string json
  | SignTransaction keypair transaction
  | SendRawTransaction bytes
  | FernetEncrypt bytes
  | FernetDecrypt bytes
  | RedisHmset string pydict
  | ReplyText string "keyboard option"

text \<open>A computation returns a value or raises, and leaves the log of the calls it
  made up to that point.\<close>

type_synonym 'a io = "(py_error + 'a) \<times> event list"

definition io_return :: "'a \<Rightarrow> 'a io" where
  "io_return a = (Inr a, [])"

definition io_raise :: "py_error \<Rightarrow> 'a io" where
  "io_raise e = (Inl e, [])"

definition io_lift :: "py_error + 'a \<Rightarrow> 'a io" where
  "io_lift r = (r, [])"

definition io_emit :: "event \<Rightarrow> unit io" where
  "io_emit ev = (Inr (), [ev])"

definition io_bind :: "'a io \<Rightarrow> ('a \<Rightarrow> 'b io) \<Rightarrow> 'b io" where
  "io_bind m f =
     (case m of
        (Inl e, t) \<Rightarrow> (Inl e, t)
      | (Inr a, t) \<Rightarrow> (case f a of (r, t') \<Rightarrow> (r, t @ t')))"

text \<open>The one call of the module that writes to the store.\<close>

fun is_store_write :: "event \<Rightarrow> bool" where
  "is_store_write (RedisHmset _ _) = True"
| "is_store_write _ = False"

subsection \<open>Module namespace\<close>

text \<open>The names bound at module level when a method body runs: the imports of lines
  1 to 15, the four classes and the module variables of lines 195 to 206 (line 209
  raises before \<^verbatim>\<open>bot\<close> is bound: \<^verbatim>\<open>register_handlers\<close> reads \<^verbatim>\<open>self.buy_command\<close>, which
  the class does not define). A global name that is not among them (and is not a
  builtin) raises \<^verbatim>\<open>NameError\<close> where it is read.\<close>

definition module_globals :: "string list" where
  "module_globals =
     [''asyncio'', ''base64'', ''json'', ''Dict'', ''List'', ''Optional'', ''datetime'',
      ''aiohttp'', ''Fernet'', ''AsyncClient'', ''Keypair'', ''Transaction'',
      ''TransactionInstruction'', ''Update'', ''InlineKeyboardButton'',
      ''InlineKeyboardMarkup'', ''Application'', ''CommandHandler'', ''CallbackContext'',
      ''CallbackQueryHandler'', ''Redis'', ''SecurityManager'', ''TokenManager'',
      ''TradingManager'', ''SolanaTelegramBot'', ''config'', ''redis_client'',
      ''security_manager'', ''token_manager'', ''trading_manager'']"

definition load_global :: "string \<Rightarrow> unit io" where
  "load_global name =
     (if name \<in> set module_globals then io_return () else io_raise (NameError name))"

section \<open>TradingManager\<close>

text \<open>The modules \<^verbatim>\<open>execute_trade\<close> calls into: \<^verbatim>\<open>random.uniform\<close> (the value it
  draws at this call), the POST of \<^verbatim>\<open>aiohttp\<close> together with \<^verbatim>\<open>response.json()\<close>,
  \<^verbatim>\<open>base64.b64decode\<close>, \<^verbatim>\<open>Transaction.deserialize\<close>, \<^verbatim>\<open>Keypair.sign_transaction\<close> and
  \<^verbatim>\<open>Transaction.serialize\<close>. The floats \<^verbatim>\<open>0.1\<close> and \<^verbatim>\<open>2.0\<close> are written as rationals.\<close>

record trade_libs =
  random_uniform :: "rat \<Rightarrow> rat \<Rightarrow> rat"
  http_post_json :: "string \<Rightarrow> json \<Rightarrow> py_error + json"
  b64decode :: "json \<Rightarrow> py_error + bytes"
  Transaction_deserialize :: "bytes \<Rightarrow> py_error + transaction"
  sign_transaction :: "keypair \<Rightarrow> transaction \<Rightarrow> py_error + transaction"
  serialize :: "transaction \<Rightarrow> py_error + bytes"

record rpc_client =
  send_raw_transaction :: "bytes \<Rightarrow> py_error + string"

record trading_manager =
  client :: rpc_client
  jupiter_api :: string

definition TradingManager_init :: "rpc_client \<Rightarrow> trading_manager" where
  "TradingManager_init c = \<lparr> client = c, jupiter_api = ''https://quote-api.jup.ag/v6'' \<rparr>"

text \<open>\<^verbatim>\<open>swap_tx['swapTransaction']\<close>: a \<^verbatim>\<open>dict\<close> is looked up and raises \<^verbatim>\<open>KeyError\<close> on
  a missing key; every other JSON value raises \<^verbatim>\<open>TypeError\<close> on a string subscript.\<close>

fun json_getitem :: "json \<Rightarrow> string \<Rightarrow> py_error + json" where
  "json_getitem (JObject items) k =
     (case map_of items k of None \<Rightarrow> Inl (KeyError k) | Some v \<Rightarrow> Inr v)"
| "json_getitem _ k = Inl TypeError"

text \<open>\<^verbatim>\<open>TradingManager.execute_trade\<close>, lines 78 to 94. There is no \<^verbatim>\<open>try\<close> in the body:
  an exception of any step ends the call.\<close>

definition execute_trade ::
  "trade_libs \<Rightarrow> trading_manager \<Rightarrow> json \<Rightarrow> keypair \<Rightarrow> bool \<Rightarrow> string io" where
  "execute_trade L self quote wallet anti_mev =
     io_bind (if anti_mev
              then io_bind (load_global ''random'') (\<lambda>_.
                   io_bind (io_return (random_uniform L (1 / 10) 2)) (\<lambda>delay.
                   io_emit (Sleep delay)))
              else io_return ()) (\<lambda>_.
     io_bind (io_emit (HttpPost (jupiter_api self @ ''/swap'') quote)) (\<lambda>_.
     io_bind (io_lift (http_post_json L (jupiter_api self @ ''/swap'') quote)) (\<lambda>swap_tx.
     io_bind (io_lift (json_getitem swap_tx ''swapTransaction'')) (\<lambda>encoded.
     io_bind (io_lift (b64decode L encoded)) (\<lambda>raw.
     io_bind (io_lift (Transaction_deserialize L raw)) (\<lambda>tx.
     io_bind (io_lift (sign_transaction L wallet tx)) (\<lambda>signed_tx.
     io_bind (io_emit (SignTransaction wallet tx)) (\<lambda>_.
     io_bind (io_lift (serialize L signed_tx)) (\<lambda>wire.
     io_bind (io_emit (SendRawTransaction wire)) (\<lambda>_.
     io_lift (send_raw_transaction (client self) wire)))))))))))"

text \<open>The spec's freshness condition on an unsigned transaction, for a chain that
  reports the age of a blockhash: the anchor is older than the bound. The source has no
  counterpart; the condition is only used to state what \<^verbatim>\<open>execute_trade\<close> does with such a
  transaction.\<close>

definition anchor_older_than :: "(string \<Rightarrow> nat) \<Rightarrow> nat \<Rightarrow> transaction \<Rightarrow> bool" where
  "anchor_older_than age bound tx = (bound < age (recent_blockhash tx))"

section \<open>SecurityManager\<close>

text \<open>\<^verbatim>\<open>bytes.decode()\<close> accepts well-formed UTF-8 only (no overlong forms, no
  surrogates, nothing above U+10FFFF). \<^verbatim>\<open>str.encode()\<close> yields the UTF-8 form, which is the
  representation itself, and raises \<^verbatim>\<open>UnicodeEncodeError\<close> on a string that holds a lone
  surrogate, that is one whose representation is not UTF-8 proper.\<close>

fun utf8_wellformed :: "nat list \<Rightarrow> bool" where
  "utf8_wellformed [] = True"
| "utf8_wellformed (b0 # bs) =
     (if b0 < 128 then utf8_wellformed bs
      else if 194 \<le> b0 \<and> b0 \<le> 223 then
        (case bs of
           b1 # r \<Rightarrow> 128 \<le> b1 \<and> b1 \<le> 191 \<and> utf8_wellformed r
         | _ \<Rightarrow> False)
      else if 224 \<le> b0 \<and> b0 \<le> 239 then
        (case bs of
           b1 # b2 # r \<Rightarrow>
             (if b0 = 224 then 160 else 128) \<le> b1 \<and> b1 \<le> (if b0 = 237 then 159 else 191) \<and>
             128 \<le> b2 \<and> b2 \<le> 191 \<and> utf8_wellformed r
         | _ \<Rightarrow> False)
      else if 240 \<le> b0 \<and> b0 \<le> 244 then
        (case bs of
           b1 # b2 # b3 # r \<Rightarrow>
             (if b0 = 240 then 144 else 128) \<le> b1 \<and> b1 \<le> (if b0 = 244 then 143 else 191) \<and>
             128 \<le> b2 \<and> b2 \<le> 191 \<and> 128 \<le> b3 \<and> b3 \<le> 191 \<and> utf8_wellformed r
         | _ \<Rightarrow> False)
      else False)"

definition bytes_decode :: "bytes \<Rightarrow> py_error + string" where
  "bytes_decode bs =
     (if utf8_wellformed (map of_char bs) then Inr bs else Inl UnicodeDecodeError)"

definition str_encode :: "string \<Rightarrow> py_error + bytes" where
  "str_encode s =
     (if utf8_wellformed (map of_char s) then Inr s else Inl UnicodeEncodeError)"

text \<open>A \<^verbatim>\<open>Fernet\<close> object of the \<^verbatim>\<open>cryptography\<close> package, bound to its key:
  \<open>encrypt\<close> is the token it produces at this call (the library picks the time stamp
  and the IV), \<open>decrypt\<close> the plaintext of a token, or \<open>None\<close> where the library raises
  \<^verbatim>\<open>InvalidToken\<close>. \<open>is_token p t\<close> says that \<open>t\<close> is one of the tokens the object can
  issue for the plaintext \<open>p\<close>, at some time and with some IV: the valid encryptions of
  \<open>p\<close> under the key.\<close>

record fernet_object =
  encrypt :: "bytes \<Rightarrow> bytes"
  decrypt :: "bytes \<Rightarrow> bytes option"
  is_token :: "bytes \<Rightarrow> bytes \<Rightarrow> bool"



record security_manager =
  fernet :: fernet_object

text \<open>\<^verbatim>\<open>SecurityManager.__init__\<close>: the constructor \<^verbatim>\<open>Fernet(key)\<close> raises \<^verbatim>\<open>ValueError\<close>
  on a key that is not 32 url-safe base64-encoded bytes.\<close>

definition SecurityManager_init ::
  "(bytes \<Rightarrow> py_error + fernet_object) \<Rightarrow> string \<Rightarrow> py_error + security_manager" where
  "SecurityManager_init Fernet encryption_key =
     (case str_encode encryption_key of
        Inl e \<Rightarrow> Inl e
      | Inr key \<Rightarrow>
          (case Fernet key of
             Inl e \<Rightarrow> Inl e
           | Inr f \<Rightarrow> Inr \<lparr> fernet = f \<rparr>))"

definition encrypt_private_key :: "security_manager \<Rightarrow> bytes \<Rightarrow> string io" where
  "encrypt_private_key self private_key =
     io_bind (io_emit (FernetEncrypt private_key)) (\<lambda>_.
     io_lift (bytes_decode (encrypt (fernet self) private_key)))"

definition decrypt_private_key :: "security_manager \<Rightarrow> string \<Rightarrow> bytes io" where
  "decrypt_private_key self encrypted_key =
     io_bind (io_lift (str_encode encrypted_key)) (\<lambda>token.
     io_bind (io_emit (FernetDecrypt token)) (\<lambda>_.
     (case decrypt (fernet self) token of
        None \<Rightarrow> io_raise InvalidToken
      | Some plain \<Rightarrow> io_return plain)))"

section \<open>TokenManager\<close>

text \<open>A \<^verbatim>\<open>float\<close>: a number of a linearly ordered type (the infinities among them), or
  NaN, which compares false with everything.\<close>

datatype 'f pyfloat = Num 'f | NaN

text \<open>The builtins the token code calls: \<^verbatim>\<open>float()\<close>, \<^verbatim>\<open>int()\<close>, the \<^verbatim>\<open>repr\<close> of a
  \<^verbatim>\<open>bytes\<close> object, the format \<^verbatim>\<open>:.2f\<close>, and what \<^verbatim>\<open>list.sort(key=..., reverse=True)\<close>
  leaves of a list of keyed elements when one of the keys is NaN (the comparisons then
  are no order, and the outcome is the sorting algorithm's).\<close>

record 'f builtins =
  py_float :: "pyval \<Rightarrow> py_error + 'f pyfloat"
  py_int :: "string \<Rightarrow> py_error + int"
  bytes_repr :: "bytes \<Rightarrow> string"
  format_2f :: "'f pyfloat \<Rightarrow> string"
  sort_nan_keys :: "('f pyfloat \<times> pydict) list \<Rightarrow> pydict list"

text \<open>The Redis client: \<^verbatim>\<open>keys(pattern)\<close> in the order the store returns them,
  \<^verbatim>\<open>hgetall(key)\<close> and \<^verbatim>\<open>hmset(key, mapping)\<close>. Each call can raise (a connection error, a
  mapping the client refuses).\<close>

record redis_client =
  keys :: "string \<Rightarrow> py_error + pyval list"
  hgetall :: "pyval \<Rightarrow> py_error + pydict"
  hmset :: "string \<Rightarrow> pydict \<Rightarrow> py_error + unit"

record token_manager =
  redis :: redis_client

definition add_token :: "token_manager \<Rightarrow> string \<Rightarrow> string \<Rightarrow> pydict \<Rightarrow> unit io" where
  "add_token self wallet_id token_address token_data =
     (let key = ''tokens:'' @ wallet_id @ '':'' @ token_address in
      io_bind (io_lift (hmset (redis self) key token_data)) (\<lambda>_.
      io_emit (RedisHmset key token_data)))"

text \<open>\<^verbatim>\<open>d.get(k, default)\<close>. A \<^verbatim>\<open>str\<close> key and a \<^verbatim>\<open>bytes\<close> key are never equal.\<close>

definition dict_get :: "pydict \<Rightarrow> pyval \<Rightarrow> pyval \<Rightarrow> pyval" where
  "dict_get d k dflt = (case map_of d k of None \<Rightarrow> dflt | Some v \<Rightarrow> v)"

text \<open>The key function is applied to every element, in order, before anything is
  compared; the first exception ends the sort.\<close>

fun map_result :: "('a \<Rightarrow> py_error + 'b) \<Rightarrow> 'a list \<Rightarrow> py_error + 'b list" where
  "map_result f [] = Inr []"
| "map_result f (x # xs) =
     (case f x of
        Inl e \<Rightarrow> Inl e
      | Inr y \<Rightarrow> (case map_result f xs of Inl e \<Rightarrow> Inl e | Inr ys \<Rightarrow> Inr (y # ys)))"

text \<open>\<^verbatim>\<open>list.sort(key=f, reverse=True)\<close>: descending and stable, that is elements with
  equal keys keep their order.\<close>

definition sort_desc :: "('a \<Rightarrow> 'k::linorder) \<Rightarrow> 'a list \<Rightarrow> 'a list" where
  "sort_desc f xs = rev (sort_key f (rev xs))"

text \<open>The two key functions of lines 55 and 57.\<close>

definition value_key :: "'f builtins \<Rightarrow> pydict \<Rightarrow> py_error + 'f pyfloat" where
  "value_key B x = py_float B (dict_get x (PStr ''value'') (PInt 0))"

definition date_key :: "pydict \<Rightarrow> pyval" where
  "date_key x = dict_get x (PStr ''purchase_date'') (PStr [])"

text \<open>The numbers of a list of keys, when none of them is NaN.\<close>

fun numbers :: "'f pyfloat list \<Rightarrow> 'f list option" where
  "numbers [] = Some []"
| "numbers (Num x # ks) = (case numbers ks of None \<Rightarrow> None | Some xs \<Rightarrow> Some (x # xs))"
| "numbers (NaN # ks) = None"

definition sort_by_value :: "'f::linorder builtins \<Rightarrow> pydict list \<Rightarrow> py_error + pydict list" where
  "sort_by_value B tokens =
     (case map_result (value_key B) tokens of
        Inl e \<Rightarrow> Inl e
      | Inr ks \<Rightarrow>
          (case numbers ks of
             Some xs \<Rightarrow> Inr (map snd (sort_desc fst (zip xs tokens)))
           | None \<Rightarrow> Inr (sort_nan_keys B (zip ks tokens))))"

text \<open>Keys of one type compare as Python compares them; \<^verbatim>\<open><\<close> between two different
  types among \<^verbatim>\<open>int\<close>, \<^verbatim>\<open>str\<close> and \<^verbatim>\<open>bytes\<close> raises \<^verbatim>\<open>TypeError\<close>, which a sort of two or
  more elements of mixed types always reaches.\<close>

fun is_PInt :: "pyval \<Rightarrow> bool" where
  "is_PInt (PInt _) = True"
| "is_PInt _ = False"

fun is_PStr :: "pyval \<Rightarrow> bool" where
  "is_PStr (PStr _) = True"
| "is_PStr _ = False"

fun is_PBytes :: "pyval \<Rightarrow> bool" where
  "is_PBytes (PBytes _) = True"
| "is_PBytes _ = False"

definition comparable :: "pyval list \<Rightarrow> bool" where
  "comparable ks = (list_all is_PInt ks \<or> list_all is_PStr ks \<or> list_all is_PBytes ks)"

fun rank :: "pyval \<Rightarrow> int \<times> string" where
  "rank (PInt i) = (i, [])"
| "rank (PStr s) = (0, s)"
| "rank (PBytes b) = (0, b)"

definition sort_by_date :: "pydict list \<Rightarrow> py_error + pydict list" where
  "sort_by_date tokens =
     (let ks = map date_key tokens
      in if comparable ks
         then Inr (map snd (sort_desc (\<lambda>p. rank (fst p)) (zip ks tokens)))
         else Inl TypeError)"

text \<open>\<^verbatim>\<open>xs[start:stop]\<close> with Python's treatment of negative and overlong bounds.\<close>

definition py_slice :: "'a list \<Rightarrow> int \<Rightarrow> int \<Rightarrow> 'a list" where
  "py_slice xs start stop =
     (let n = int (length xs);
          s = (if start < 0 then max 0 (start + n) else min start n);
          e = (if stop < 0 then max 0 (stop + n) else min stop n)
      in take (nat (e - s)) (drop (nat s) xs))"

text \<open>Lines 44 to 51: the hashes of the keys that match the wallet's pattern, in the
  order the store lists the keys. The first call that raises ends the loop.\<close>

definition wallet_tokens :: "token_manager \<Rightarrow> string \<Rightarrow> py_error + pydict list" where
  "wallet_tokens self wallet_id =
     (let pattern = ''tokens:'' @ wallet_id @ '':*'' in
      case keys (redis self) pattern of
        Inl e \<Rightarrow> Inl e
      | Inr token_keys \<Rightarrow> map_result (hgetall (redis self)) token_keys)"

text \<open>\<^verbatim>\<open>TokenManager.get_tokens\<close>, lines 38 to 59. \<^verbatim>\<open>page - 1\<close> is evaluated first and
  raises \<^verbatim>\<open>TypeError\<close> when \<^verbatim>\<open>page\<close> is not a number.\<close>

definition get_tokens ::
  "'f::linorder builtins \<Rightarrow> token_manager \<Rightarrow> string \<Rightarrow> pyval \<Rightarrow> string \<Rightarrow> py_error + pydict list" where
  "get_tokens B self wallet_id page sort_by =
     (case page of
        PInt p \<Rightarrow>
          (let tokens_per_page = 20;
               start = (p - 1) * tokens_per_page;
               stop = start + tokens_per_page
           in case wallet_tokens self wallet_id of
                Inl e \<Rightarrow> Inl e
              | Inr tokens \<Rightarrow>
                  (case (if sort_by = ''value'' then sort_by_value B tokens
                         else if sort_by = ''date'' then sort_by_date tokens
                         else Inr tokens) of
                     Inl e \<Rightarrow> Inl e
                   | Inr sorted_tokens \<Rightarrow> Inr (py_slice sorted_tokens start stop)))
      | _ \<Rightarrow> Inl TypeError)"

section \<open>SolanaTelegramBot\<close>

text \<open>\<^verbatim>\<open>str(n)\<close> of an \<^verbatim>\<open>int\<close>.\<close>

fun nat_digits :: "nat \<Rightarrow> string" where
  "nat_digits n =
     (if n < 10 then [char_of (48 + n)]
      else nat_digits (n div 10) @ [char_of (48 + n mod 10)])"

declare nat_digits.simps [simp del]

definition str_int :: "int \<Rightarrow> string" where
  "str_int i = (if i < 0 then CHR ''-'' # nat_digits (nat (- i)) else nat_digits (nat i))"

text \<open>A value inside an f-string.\<close>

definition py_format :: "'f builtins \<Rightarrow> pyval \<Rightarrow> string" where
  "py_format B v =
     (case v of
        PInt i \<Rightarrow> str_int i
      | PStr s \<Rightarrow> s
      | PBytes b \<Rightarrow> bytes_repr B b)"

text \<open>\<^verbatim>\<open>s.split(sep)\<close> for a one-character separator: never an empty list.\<close>

fun py_split :: "char \<Rightarrow> string \<Rightarrow> string list" where
  "py_split sep [] = [[]]"
| "py_split sep (c # cs) =
     (if c = sep then [] # py_split sep cs
      else (case py_split sep cs of
              [] \<Rightarrow> [[c]]
            | w # ws \<Rightarrow> (c # w) # ws))"

definition py_index :: "'a list \<Rightarrow> nat \<Rightarrow> py_error + 'a" where
  "py_index xs i = (if i < length xs then Inr (xs ! i) else Inl IndexError)"

definition dict_getitem :: "pydict \<Rightarrow> string \<Rightarrow> py_error + pyval" where
  "dict_getitem d k = (case map_of d (PStr k) of None \<Rightarrow> Inl (KeyError k) | Some v \<Rightarrow> Inr v)"

text \<open>The parts of a Telegram update and of the callback context the handlers read.
  Each is \<open>None\<close> where the library leaves the attribute \<^verbatim>\<open>None\<close>.\<close>

record callback_query =
  data :: "string option"

record update =
  effective_user :: "int option"
  message :: "int option"
  callback_query :: "callback_query option"

record callback_context =
  args :: "string list option"

text \<open>\<^verbatim>\<open>Keypair()\<close> (the key pair generated at this call) and \<^verbatim>\<open>str(public_key)\<close>.\<close>

record wallet_libs =
  Keypair_new :: keypair
  pubkey_str :: "bytes \<Rightarrow> string"

record solana_telegram_bot =
  bot_security_manager :: security_manager
  bot_token_manager :: token_manager
  bot_trading_manager :: trading_manager

definition reply_text :: "update \<Rightarrow> string \<Rightarrow> keyboard option \<Rightarrow> unit io" where
  "reply_text upd txt markup =
     (case message upd of
        None \<Rightarrow> io_raise AttributeError
      | Some _ \<Rightarrow> io_emit (ReplyText txt markup))"

definition user_id_of :: "update \<Rightarrow> string io" where
  "user_id_of upd =
     (case effective_user upd of
        None \<Rightarrow> io_raise AttributeError
      | Some uid \<Rightarrow> io_return (str_int uid))"

text \<open>\<^verbatim>\<open>create_wallet_command\<close>, lines 129 to 144. \<^verbatim>\<open>wallet_data\<close> is a local variable
  that nothing reads.\<close>

definition create_wallet_command ::
  "wallet_libs \<Rightarrow> solana_telegram_bot \<Rightarrow> update \<Rightarrow> callback_context \<Rightarrow> unit io" where
  "create_wallet_command W self upd ctx =
     (let kp = Keypair_new W in
      io_bind (encrypt_private_key (bot_security_manager self) (secret_key kp))
        (\<lambda>encrypted_private_key.
      io_bind (user_id_of upd) (\<lambda>user_id.
      let wallet_data =
            [(''public_key'', pubkey_str W (public_key kp)),
             (''private_key'', encrypted_private_key)]
      in reply_text upd
           (''Wallet created!'' @ [CHR 0x0A] @ ''Public Key: '' @ pubkey_str W (public_key kp) @
            [CHR 0x0A, CHR 0x0A] @
            ''Your private key has been encrypted and stored securely.'')
           None)))"

text \<open>The body of the loop of \<^verbatim>\<open>list_tokens_command\<close>: the three lines of one token.\<close>

definition token_lines :: "'f builtins \<Rightarrow> pydict \<Rightarrow> py_error + string" where
  "token_lines B token =
     (case dict_getitem token ''symbol'' of
        Inl e \<Rightarrow> Inl e
      | Inr symbol \<Rightarrow>
     (case dict_getitem token ''value'' of
        Inl e \<Rightarrow> Inl e
      | Inr v \<Rightarrow>
     (case py_float B v of
        Inl e \<Rightarrow> Inl e
      | Inr x \<Rightarrow>
     (case dict_getitem token ''purchase_date'' of
        Inl e \<Rightarrow> Inl e
      | Inr d \<Rightarrow>
          Inr (''Symbol: '' @ py_format B symbol @ [CHR 0x0A] @
               ''Value: $'' @ format_2f B x @ [CHR 0x0A] @
               ''Purchase Date: '' @ py_format B d @ [CHR 0x0A, CHR 0x0A])))))"

fun token_list_message :: "'f builtins \<Rightarrow> string \<Rightarrow> pydict list \<Rightarrow> py_error + string" where
  "token_list_message B msg [] = Inr msg"
| "token_list_message B msg (token # tokens) =
     (case token_lines B token of
        Inl e \<Rightarrow> Inl e
      | Inr ls \<Rightarrow> token_list_message B (msg @ ls) tokens)"

definition pagination_keyboard :: "pyval \<Rightarrow> string \<Rightarrow> py_error + keyboard" where
  "pagination_keyboard page sort_by =
     (case page of
        PInt p \<Rightarrow>
          Inr [[(''Previous'', ''list_'' @ str_int (p - 1) @ ''_'' @ sort_by),
                (''Next'', ''list_'' @ str_int (p + 1) @ ''_'' @ sort_by)],
               [(''Sort by Value'', ''list_'' @ str_int p @ ''_value''),
                (''Sort by Date'', ''list_'' @ str_int p @ ''_date'')]]
      | _ \<Rightarrow> Inl TypeError)"

text \<open>\<^verbatim>\<open>list_tokens_command\<close>, lines 146 to 178. The page and the sort key come from
  \<^verbatim>\<open>context.args\<close>; \<^verbatim>\<open>len(context.args)\<close> raises \<^verbatim>\<open>TypeError\<close> when the arguments are
  \<^verbatim>\<open>None\<close>.\<close>

definition page_of_args :: "string list option \<Rightarrow> pyval" where
  "page_of_args a = (case a of Some (x # _) \<Rightarrow> PStr x | _ \<Rightarrow> PInt 1)"

definition sort_of_args :: "string list option \<Rightarrow> py_error + string" where
  "sort_of_args a =
     (case a of
        None \<Rightarrow> Inl TypeError
      | Some xs \<Rightarrow> Inr (if 1 < length xs then xs ! 1 else ''value''))"

definition list_tokens_command ::
  "'f::linorder builtins \<Rightarrow> solana_telegram_bot \<Rightarrow> update \<Rightarrow> callback_context \<Rightarrow> unit io" where
  "list_tokens_command B self upd ctx =
     io_bind (user_id_of upd) (\<lambda>user_id.
     let page = page_of_args (args ctx) in
     io_bind (io_lift (sort_of_args (args ctx))) (\<lambda>sort_by.
     io_bind (io_lift (get_tokens B (bot_token_manager self) user_id page sort_by)) (\<lambda>tokens.
     if tokens = [] then reply_text upd ''No tokens found.'' None
     else
       io_bind (io_lift (token_list_message B (''Your tokens:'' @ [CHR 0x0A, CHR 0x0A]) tokens))
         (\<lambda>msg.
       io_bind (io_lift (pagination_keyboard page sort_by)) (\<lambda>kb.
       reply_text upd msg (Some kb))))))"

text \<open>\<^verbatim>\<open>handle_callback\<close>, lines 180 to 188. The parsed \<^verbatim>\<open>page\<close> and \<^verbatim>\<open>sort_by\<close> are
  local variables that nothing reads.\<close>

definition handle_callback ::
  "'f::linorder builtins \<Rightarrow> solana_telegram_bot \<Rightarrow> update \<Rightarrow> callback_context \<Rightarrow> unit io" where
  "handle_callback B self upd ctx =
     (case callback_query upd of
        None \<Rightarrow> io_raise AttributeError
      | Some query \<Rightarrow>
     (case data query of
        None \<Rightarrow> io_raise AttributeError
      | Some d \<Rightarrow>
          (let fields = py_split (CHR ''_'') d in
           io_bind (io_lift (py_index fields 0)) (\<lambda>f0.
           if f0 = ''list'' then
             io_bind (io_lift (py_index fields 1)) (\<lambda>f1.
             io_bind (io_lift (py_int B f1)) (\<lambda>page.
             io_bind (io_lift (py_index fields 2)) (\<lambda>sort_by.
             list_tokens_command B self upd ctx)))
           else io_return ()))))"

section \<open>Sample collaborators\<close>

text \<open>Small concrete collaborators, on which the functions above are evaluated. They
  have the interfaces of the libraries and answer as the libraries do on the inputs
  used below; they have none of the libraries' cryptography or networking.\<close>

definition sample_rpc :: rpc_client where
  "sample_rpc = \<lparr> send_raw_transaction = (\<lambda>w. Inr (''sig:'' @ w)) \<rparr>"

definition sample_trading_manager :: trading_manager where
  "sample_trading_manager = TradingManager_init sample_rpc"

text \<open>Base64 in the standard alphabet, on well-formed input.\<close>

definition b64_value :: "char \<Rightarrow> nat option" where
  "b64_value c =
     (let n = of_char c
      in if 65 \<le> n \<and> n \<le> 90 then Some (n - 65)
         else if 97 \<le> n \<and> n \<le> 122 then Some (n - 71)
         else if 48 \<le> n \<and> n \<le> 57 then Some (n + 4)
         else if n = 43 then Some 62
         else if n = 47 then Some 63
         else None)"

fun b64_decode :: "string \<Rightarrow> bytes option" where
  "b64_decode [] = Some []"
| "b64_decode (a # b # c # d # rest) =
     (case (b64_value a, b64_value b) of
        (Some x, Some y) \<Rightarrow>
          if rest = [] \<and> c = CHR ''='' \<and> d = CHR ''=''
          then Some [char_of (4 * x + y div 16)]
          else
            (case b64_value c of
               None \<Rightarrow> None
             | Some z \<Rightarrow>
                 if rest = [] \<and> d = CHR ''=''
                 then Some [char_of (4 * x + y div 16), char_of (16 * (y mod 16) + z div 4)]
                 else
                   (case (b64_value d, b64_decode rest) of
                      (Some w, Some bs) \<Rightarrow>
                        Some (char_of (4 * x + y div 16) #
                              char_of (16 * (y mod 16) + z div 4) #
                              char_of (64 * (z mod 4) + w) # bs)
                    | _ \<Rightarrow> None))
      | _ \<Rightarrow> None)"
| "b64_decode _ = None"

text \<open>The wire format of a transaction, read far enough to find the anchor: the
  number of signatures and 64 bytes for each, then the message, which is three header
  bytes, the number of account keys and 32 bytes for each, the 32 bytes of the recent
  blockhash, and the instructions.\<close>

definition wire_deserialize :: "bytes \<Rightarrow> py_error + transaction" where
  "wire_deserialize raw =
     (case raw of
        [] \<Rightarrow> Inl ValueError
      | c # rest \<Rightarrow>
          (let nsig = of_char c;
               msg = drop (64 * nsig) rest;
               nkeys = (if length msg < 4 then 0 else of_char (msg ! 3))
           in if 128 \<le> nsig \<or> length rest < 64 * nsig \<or> 128 \<le> nkeys \<or>
                 length msg < 4 + 32 * nkeys + 32
              then Inl ValueError
              else Inr \<lparr> recent_blockhash = take 32 (drop (4 + 32 * nkeys) msg),
                         message_bytes = msg,
                         signatures = map (\<lambda>i. take 64 (drop (64 * i) rest)) [0..<nsig] \<rparr>))"

text \<open>The aggregator answers every POST with the given response. The wallet is a
  \<^verbatim>\<open>solana.keypair.Keypair\<close>, as line 78 declares it: that class has no attribute
  \<^verbatim>\<open>sign_transaction\<close>, so line 92 raises \<^verbatim>\<open>AttributeError\<close>.\<close>

definition sample_libs :: "(py_error + json) \<Rightarrow> trade_libs" where
  "sample_libs response =
     \<lparr> random_uniform = (\<lambda>a b. a),
       http_post_json = (\<lambda>url body. response),
       b64decode =
         (\<lambda>j. case j of
                 JString s \<Rightarrow>
                   (case b64_decode s of
                      None \<Rightarrow> Inl (LibraryError ''binascii.Error'')
                    | Some bs \<Rightarrow> Inr bs)
               | _ \<Rightarrow> Inl TypeError),
       Transaction_deserialize = wire_deserialize,
       sign_transaction = (\<lambda>kp tx. Inl AttributeError),
       serialize =
         (\<lambda>tx. Inr (char_of (length (signatures tx)) # concat (signatures tx) @
                    message_bytes tx)) \<rparr>"

definition sample_wallet :: keypair where
  "sample_wallet = \<lparr> public_key = ''PUB'', secret_key = ''SEC'' \<rparr>"

definition sample_quote :: json where
  "sample_quote = JObject [(''inputMint'', JString ''A''), (''outputMint'', JString ''B'')]"

text \<open>An unsigned transaction of one instruction: one empty signature, the header
  \<open>1 0 1\<close>, two account keys, the recent blockhash \<open>07 ... 07\<close>, and the instruction.
  \<open>sample_swap_b64\<close> is its base64 form, as the aggregator sends it.\<close>

definition sample_swap_raw :: bytes where
  "sample_swap_raw =
     CHR 0x01 # replicate 64 (CHR 0x00) @
     [CHR 0x01, CHR 0x00, CHR 0x01, CHR 0x02] @
     replicate 32 (CHR 0x11) @ replicate 32 (CHR 0x00) @
     replicate 32 (CHR 0x07) @
     [CHR 0x01, CHR 0x01, CHR 0x01, CHR 0x00, CHR 0x00]"

definition sample_swap_b64 :: string where
  "sample_swap_b64 =
     ''AQAAAAAAAAAAAAAAAAAAAAAAAAAAAAAAAAAAAAAAAAAAAAAAAAAAAAAAAAAAAAAAAAAAAAAAAAAAAAAAAAAAAAABAAECEREREREREREREREREREREREREREREREREREREREREREAAAAAAAAAAAAAAAAAAAAAAAAAAAAAAAAAAAAAAAAAAAcHBwcHBwcHBwcHBwcHBwcHBwcHBwcHBwcHBwcHBwcHAQEBAAA=''"

definition sample_swap_response :: json where
  "sample_swap_response = JObject [(''swapTransaction'', JString sample_swap_b64)]"

text \<open>A chain on which the blockhash \<open>07 ... 07\<close> is 1000 slots old, and the
  transaction above, which is anchored to it.\<close>

definition sample_chain_age :: "string \<Rightarrow> nat" where
  "sample_chain_age h = (if h = replicate 32 (CHR 0x07) then 1000 else 0)"

definition stale_tx :: transaction where
  "stale_tx =
     \<lparr> recent_blockhash = replicate 32 (CHR 0x07),
       message_bytes = drop 65 sample_swap_raw,
       signatures = [replicate 64 (CHR 0x00)] \<rparr>"

text \<open>A stand-in for a Fernet object: the token is a fixed header, a check digit of
  the plaintext and the plaintext in hexadecimal, so every token is ASCII text. A token
  is accepted when it has the header, well-formed hexadecimal and the check digit of
  what it holds; the tokens issued for a plaintext are the one \<open>encrypt\<close> yields.\<close>

definition hex_digit :: "nat \<Rightarrow> char" where
  "hex_digit n = ''0123456789abcdef'' ! n"

definition hex_encode :: "bytes \<Rightarrow> string" where
  "hex_encode bs =
     concat (map (\<lambda>c. [hex_digit (of_char c div 16), hex_digit (of_char c mod 16)]) bs)"

definition hex_value :: "char \<Rightarrow> nat option" where
  "hex_value c =
     (let n = of_char c
      in if 48 \<le> n \<and> n \<le> 57 then Some (n - 48)
         else if 97 \<le> n \<and> n \<le> 102 then Some (n - 87)
         else None)"

fun hex_decode :: "string \<Rightarrow> bytes option" where
  "hex_decode [] = Some []"
| "hex_decode [c] = None"
| "hex_decode (a # b # r) =
     (case (hex_value a, hex_value b, hex_decode r) of
        (Some x, Some y, Some bs) \<Rightarrow> Some (char_of (16 * x + y) # bs)
      | _ \<Rightarrow> None)"

definition check_digit :: "bytes \<Rightarrow> char" where
  "check_digit p = hex_digit (sum_list (map of_char p) mod 16)"

definition sample_fernet :: fernet_object where
  "sample_fernet =
     \<lparr> encrypt = (\<lambda>p. ''gAAAAA'' @ check_digit p # hex_encode p),
       decrypt =
         (\<lambda>t. if take 6 t = ''gAAAAA''
              then (case drop 6 t of
                      [] \<Rightarrow> None
                    | s # body \<Rightarrow>
                        (case hex_decode body of
                           None \<Rightarrow> None
                         | Some p \<Rightarrow> if s = check_digit p then Some p else None))
              else None),
       is_token = (\<lambda>p t. t = ''gAAAAA'' @ check_digit p # hex_encode p) \<rparr>"

definition sample_Fernet :: "bytes \<Rightarrow> py_error + fernet_object" where
  "sample_Fernet key = (if length key = 44 then Inr sample_fernet else Inl ValueError)"

definition sample_master_key :: string where
  "sample_master_key = ''AAAAAAAAAAAAAAAAAAAAAAAAAAAAAAAAAAAAAAAAAAA=''"

definition sample_security_manager :: security_manager where
  "sample_security_manager = \<lparr> fernet = sample_fernet \<rparr>"

text \<open>Stand-ins for the builtins: numbers are read from decimal digits, \<open>nan\<close> is NaN and
  anything else is refused, as \<^verbatim>\<open>float()\<close> and \<^verbatim>\<open>int()\<close> do on such strings. No key of the
  sample store is NaN, so \<open>sort_nan_keys\<close> is never reached on it.\<close>

definition parse_digits :: "string \<Rightarrow> nat option" where
  "parse_digits s =
     (if s \<noteq> [] \<and> list_all (\<lambda>c. 48 \<le> (of_char c :: nat) \<and> (of_char c :: nat) \<le> 57) s
      then Some (foldl (\<lambda>a c. 10 * a + (of_char c - 48)) 0 s)
      else None)"

definition parse_float :: "string \<Rightarrow> py_error + rat pyfloat" where
  "parse_float s =
     (if s = ''nan'' then Inr NaN
      else (case parse_digits s of None \<Rightarrow> Inl ValueError | Some n \<Rightarrow> Inr (Num (of_nat n))))"

definition sample_float :: "pyval \<Rightarrow> py_error + rat pyfloat" where
  "sample_float v =
     (case v of
        PInt i \<Rightarrow> Inr (Num (of_int i))
      | PStr s \<Rightarrow> parse_float s
      | PBytes b \<Rightarrow> parse_float b)"

definition sample_int :: "string \<Rightarrow> py_error + int" where
  "sample_int s =
     (case s of
        [] \<Rightarrow> Inl ValueError
      | c # r \<Rightarrow>
          if c = CHR ''-''
          then (case parse_digits r of None \<Rightarrow> Inl ValueError | Some n \<Rightarrow> Inr (- int n))
          else (case parse_digits s of None \<Rightarrow> Inl ValueError | Some n \<Rightarrow> Inr (int n)))"

definition sample_builtins :: "rat builtins" where
  "sample_builtins =
     \<lparr> py_float = sample_float,
       py_int = sample_int,
       bytes_repr = (\<lambda>b. ''b'' @ [CHR 0x27] @ b @ [CHR 0x27]),
       format_2f =
         (\<lambda>v. case v of
                 NaN \<Rightarrow> ''nan''
               | Num x \<Rightarrow> str_int \<lfloor>x\<rfloor> @ ''.'' @
                          nat_digits (nat (\<lfloor>x * 10\<rfloor> mod 10)) @
                          nat_digits (nat (\<lfloor>x * 100\<rfloor> mod 10))),
       sort_nan_keys = map snd \<rparr>"

text \<open>A store that holds three tokens of wallet \<open>42\<close> and one of wallet \<open>7\<close>, with
  fields of type \<^verbatim>\<open>str\<close>. As the client does, \<open>hmset\<close> refuses an empty mapping.\<close>

definition sol_token :: pydict where
  "sol_token =
     [(PStr ''symbol'', PStr ''SOL''), (PStr ''value'', PStr ''150''),
      (PStr ''purchase_date'', PStr ''2024-01-05'')]"

definition usdc_token :: pydict where
  "usdc_token =
     [(PStr ''symbol'', PStr ''USDC''), (PStr ''value'', PStr ''200''),
      (PStr ''purchase_date'', PStr ''2023-11-30'')]"

definition bonk_token :: pydict where
  "bonk_token =
     [(PStr ''symbol'', PStr ''BONK''), (PStr ''value'', PStr ''7''),
      (PStr ''purchase_date'', PStr ''2024-03-01'')]"

definition junk_token :: pydict where
  "junk_token =
     [(PStr ''symbol'', PStr ''JUNK''), (PStr ''value'', PStr ''n/a''),
      (PStr ''purchase_date'', PStr ''2024-02-02'')]"

definition sample_redis :: redis_client where
  "sample_redis =
     \<lparr> keys = (\<lambda>pattern.
         if pattern = ''tokens:42:*''
         then Inr [PStr ''tokens:42:SOL'', PStr ''tokens:42:USDC'', PStr ''tokens:42:BONK'']
         else if pattern = ''tokens:7:*'' then Inr [PStr ''tokens:7:JUNK'']
         else Inr []),
       hgetall = (\<lambda>k.
         if k = PStr ''tokens:42:SOL'' then Inr sol_token
         else if k = PStr ''tokens:42:USDC'' then Inr usdc_token
         else if k = PStr ''tokens:42:BONK'' then Inr bonk_token
         else if k = PStr ''tokens:7:JUNK'' then Inr junk_token
         else Inr []),
       hmset = (\<lambda>k d. if d = [] then Inl (LibraryError ''DataError'') else Inr ()) \<rparr>"

text \<open>The value of a sample token as a number.\<close>

definition sample_value :: "pydict \<Rightarrow> rat" where
  "sample_value t =
     (if t = usdc_token then 200 else if t = sol_token then 150 else if t = bonk_token then 7
      else 0)"

definition sample_token_manager :: token_manager where
  "sample_token_manager = \<lparr> redis = sample_redis \<rparr>"

definition sample_bot :: solana_telegram_bot where
  "sample_bot =
     \<lparr> bot_security_manager = sample_security_manager,
       bot_token_manager = sample_token_manager,
       bot_trading_manager = sample_trading_manager \<rparr>"

definition sample_wallet_libs :: wallet_libs where
  "sample_wallet_libs = \<lparr> Keypair_new = sample_wallet, pubkey_str = (\<lambda>b. b) \<rparr>"

text \<open>A press on the button "Sort by Date" of the second page, as Telegram delivers
  it: a callback query, with \<^verbatim>\<open>update.message\<close> and \<^verbatim>\<open>context.args\<close> left \<^verbatim>\<open>None\<close>.\<close>

definition sample_callback_update :: update where
  "sample_callback_update =
     \<lparr> effective_user = Some 42, message = None,
       callback_query = Some \<lparr> data = Some ''list_2_date'' \<rparr> \<rparr>"

definition sample_callback_context :: callback_context where
  "sample_callback_context = \<lparr> args = None \<rparr>"



section \<open>Properties of the trade execution\<close>

lemma io_bind_Inl [simp]: "io_bind (Inl e, t) f = (Inl e, t)"
  by (simp add: io_bind_def)

lemma io_bind_Inr [simp]: "io_bind (Inr a, t) f = (fst (f a), t @ snd (f a))"
  by (simp add: io_bind_def split: prod.splits)

lemma io_lift_simp [simp]: "io_lift r = (r, [])"
  by (simp add: io_lift_def)

lemma io_emit_simp [simp]: "io_emit ev = (Inr (), [ev])"
  by (simp add: io_emit_def)

lemma io_return_simp [simp]: "io_return a = (Inr a, [])"
  by (simp add: io_return_def)

lemma io_raise_simp [simp]: "io_raise e = (Inl e, [])"
  by (simp add: io_raise_def)

lemma io_bind_pair:
  "io_bind (r, t) f = (case r of Inl e \<Rightarrow> (Inl e, t) | Inr a \<Rightarrow> (fst (f a), t @ snd (f a)))"
  by (cases r) simp_all

lemma load_global_random: "load_global ''random'' = (Inl (NameError ''random''), [])"
  by (simp add: load_global_def module_globals_def)

text \<open>Without the delay, the call is a chain of seven steps; each can raise, and the
  log grows with the request, the signing and the broadcast.\<close>

lemma execute_trade_plain:
  "execute_trade L self q w False =
     (case http_post_json L (jupiter_api self @ ''/swap'') q of
        Inl e \<Rightarrow> (Inl e, [HttpPost (jupiter_api self @ ''/swap'') q])
      | Inr swap \<Rightarrow>
     (case json_getitem swap ''swapTransaction'' of
        Inl e \<Rightarrow> (Inl e, [HttpPost (jupiter_api self @ ''/swap'') q])
      | Inr enc \<Rightarrow>
     (case b64decode L enc of
        Inl e \<Rightarrow> (Inl e, [HttpPost (jupiter_api self @ ''/swap'') q])
      | Inr raw \<Rightarrow>
     (case Transaction_deserialize L raw of
        Inl e \<Rightarrow> (Inl e, [HttpPost (jupiter_api self @ ''/swap'') q])
      | Inr tx \<Rightarrow>
     (case sign_transaction L w tx of
        Inl e \<Rightarrow> (Inl e, [HttpPost (jupiter_api self @ ''/swap'') q])
      | Inr stx \<Rightarrow>
     (case serialize L stx of
        Inl e \<Rightarrow> (Inl e, [HttpPost (jupiter_api self @ ''/swap'') q, SignTransaction w tx])
      | Inr wire \<Rightarrow>
          (send_raw_transaction (client self) wire,
           [HttpPost (jupiter_api self @ ''/swap'') q, SignTransaction w tx,
            SendRawTransaction wire])))))))"
  by (simp add: execute_trade_def split: sum.splits)

lemma sample_post: "http_post_json (sample_libs r) url q = r"
  by (simp add: sample_libs_def)

lemma sample_sign: "sign_transaction (sample_libs r) w tx = Inl AttributeError"
  by (simp add: sample_libs_def)

lemma sample_url: "jupiter_api sample_trading_manager = ''https://quote-api.jup.ag/v6''"
  by (simp add: sample_trading_manager_def TradingManager_init_def)

text \<open>
  C2, as the source has it. \<^verbatim>\<open>execute_trade\<close> has no failure boundary and no
  \<open>TradeResult\<close>: the call raises \<open>e\<close> exactly when one of its steps (the request, the
  subscript, the base64 decoding, the deserialisation, the signing, the serialisation,
  the broadcast) raises \<open>e\<close> after the steps before it have succeeded. The exception
  reaches the caller as it is.
\<close>

theorem execute_trade_raises_iff:
  "fst (execute_trade L self q w False) = Inl e \<longleftrightarrow>
     http_post_json L (jupiter_api self @ ''/swap'') q = Inl e \<or>
     (\<exists>swap. http_post_json L (jupiter_api self @ ''/swap'') q = Inr swap \<and>
       (json_getitem swap ''swapTransaction'' = Inl e \<or>
     (\<exists>enc. json_getitem swap ''swapTransaction'' = Inr enc \<and>
       (b64decode L enc = Inl e \<or>
     (\<exists>raw. b64decode L enc = Inr raw \<and>
       (Transaction_deserialize L raw = Inl e \<or>
     (\<exists>tx. Transaction_deserialize L raw = Inr tx \<and>
       (sign_transaction L w tx = Inl e \<or>
     (\<exists>stx. sign_transaction L w tx = Inr stx \<and>
       (serialize L stx = Inl e \<or>
     (\<exists>wire. serialize L stx = Inr wire \<and>
        send_raw_transaction (client self) wire = Inl e)))))))))))"
  by (simp add: execute_trade_plain split: sum.splits)

text \<open>The theorem at a request that fails in the network.\<close>

theorem execute_trade_raises_iff_witness:
  "fst (execute_trade (sample_libs (Inl (LibraryError ''ServerTimeoutError'')))
          sample_trading_manager sample_quote sample_wallet False) =
   Inl (LibraryError ''ServerTimeoutError'')"
  by (simp add: execute_trade_raises_iff sample_libs_def)

text \<open>C2 as stated fails: a connection error of the request leaves \<^verbatim>\<open>execute_trade\<close> as
  the exception itself, after the one POST.\<close>

theorem execute_trade_network_failure:
  "execute_trade (sample_libs (Inl (LibraryError ''ClientConnectorError'')))
     sample_trading_manager sample_quote sample_wallet False =
   (Inl (LibraryError ''ClientConnectorError''),
    [HttpPost ''https://quote-api.jup.ag/v6/swap'' sample_quote])"
  by (simp add: execute_trade_plain sample_post sample_url)

text \<open>
  C3, as the source has it. When the aggregator answers with a JSON object that has no
  \<^verbatim>\<open>swapTransaction\<close> (its answer to a quote it rejects), the subscript at line 91 raises
  \<^verbatim>\<open>KeyError\<close>. The log holds the POST and nothing else: nothing was decrypted, signed or
  sent. (\<^verbatim>\<open>execute_trade\<close> never decrypts: it is handed the key pair.)
\<close>

theorem execute_trade_rejected_quote:
  assumes "http_post_json L (jupiter_api self @ ''/swap'') q = Inr (JObject items)"
    and "map_of items ''swapTransaction'' = None"
  shows "execute_trade L self q w False =
           (Inl (KeyError ''swapTransaction''), [HttpPost (jupiter_api self @ ''/swap'') q])"
  using assms by (simp add: execute_trade_plain)

theorem execute_trade_rejected_quote_witness:
  "http_post_json (sample_libs (Inr (JObject [(''error'', JString ''Quote expired'')])))
     (jupiter_api sample_trading_manager @ ''/swap'') sample_quote =
     Inr (JObject [(''error'', JString ''Quote expired'')]) \<and>
   map_of [(''error'', JString ''Quote expired'')] ''swapTransaction'' = None \<and>
   execute_trade (sample_libs (Inr (JObject [(''error'', JString ''Quote expired'')])))
     sample_trading_manager sample_quote sample_wallet False =
   (Inl (KeyError ''swapTransaction''),
    [HttpPost (jupiter_api sample_trading_manager @ ''/swap'') sample_quote])"
proof -
  have a: "http_post_json (sample_libs (Inr (JObject [(''error'', JString ''Quote expired'')])))
     (jupiter_api sample_trading_manager @ ''/swap'') sample_quote =
     Inr (JObject [(''error'', JString ''Quote expired'')])"
    by (simp add: sample_libs_def)
  have b: "map_of [(''error'', JString ''Quote expired'')] ''swapTransaction'' = None"
    by simp
  show ?thesis
    using a b execute_trade_rejected_quote [OF a b, of sample_wallet] by simp
qed

text \<open>C3 as stated fails: on the aggregator's rejection the call does not return a
  failure value of kind \<open>QuoteExpired\<close>, it raises \<^verbatim>\<open>KeyError\<close>.\<close>

theorem execute_trade_expired_quote_KeyError:
  "execute_trade (sample_libs (Inr (JObject [(''error'', JString ''Quote expired'')])))
     sample_trading_manager sample_quote sample_wallet False =
   (Inl (KeyError ''swapTransaction''),
    [HttpPost ''https://quote-api.jup.ag/v6/swap'' sample_quote])"
  by (simp add: execute_trade_plain sample_post sample_url)

text \<open>
  C6. With the anti-front-running mode on, the source reads the global name
  \<^verbatim>\<open>random\<close> at line 82, and the module never imports it: the call raises
  \<^verbatim>\<open>NameError\<close> before any delay is drawn, before any sleep and before any request.
\<close>

theorem execute_trade_anti_mev_NameError:
  "execute_trade L self quote wallet True = (Inl (NameError ''random''), [])"
  by (simp add: execute_trade_def load_global_random)

text \<open>The sample answer of the aggregator decodes and deserialises to the transaction
  \<open>stale_tx\<close>, whose anchor is 1000 slots old.\<close>

lemma sample_b64decode:
  "b64decode (sample_libs r) (JString sample_swap_b64) = Inr sample_swap_raw"
proof -
  have "b64_decode sample_swap_b64 = Some sample_swap_raw" by code_simp
  then show ?thesis by (simp add: sample_libs_def)
qed

lemma sample_deserialize:
  "Transaction_deserialize (sample_libs r) sample_swap_raw = Inr stale_tx"
proof -
  have "wire_deserialize sample_swap_raw = Inr stale_tx" by code_simp
  then show ?thesis by (simp add: sample_libs_def)
qed

lemma stale_tx_is_stale: "anchor_older_than sample_chain_age 150 stale_tx"
  by (simp add: anchor_older_than_def sample_chain_age_def stale_tx_def)

text \<open>
  C8, as the source has it. \<^verbatim>\<open>execute_trade\<close> never looks at the anchor of the
  transaction. When the aggregator's answer deserialises to a transaction, however old
  its recent blockhash, the next step is the call \<^verbatim>\<open>wallet.sign_transaction\<close> on it, at
  line 92. If that call raises, the exception leaves \<^verbatim>\<open>execute_trade\<close> and nothing was
  signed or sent; if it returns, the signed transaction is serialised and sent. No step
  raises an error of staleness.
\<close>

theorem execute_trade_no_freshness_check:
  assumes "anchor_older_than age bound tx"
    and "http_post_json L (jupiter_api self @ ''/swap'') q = Inr swap"
    and "json_getitem swap ''swapTransaction'' = Inr enc"
    and "b64decode L enc = Inr raw"
    and "Transaction_deserialize L raw = Inr tx"
  shows "execute_trade L self q w False =
           (case sign_transaction L w tx of
              Inl e \<Rightarrow> (Inl e, [HttpPost (jupiter_api self @ ''/swap'') q])
            | Inr stx \<Rightarrow>
                (case serialize L stx of
                   Inl e \<Rightarrow>
                     (Inl e, [HttpPost (jupiter_api self @ ''/swap'') q, SignTransaction w tx])
                 | Inr wire \<Rightarrow>
                     (send_raw_transaction (client self) wire,
                      [HttpPost (jupiter_api self @ ''/swap'') q, SignTransaction w tx,
                       SendRawTransaction wire])))"
  using assms by (simp add: execute_trade_plain)

text \<open>The theorem at the sample answer, with a bound of 150 slots and a wallet of
  class \<^verbatim>\<open>Keypair\<close>.\<close>

theorem execute_trade_no_freshness_check_witness:
  "anchor_older_than sample_chain_age 150 stale_tx \<and>
   http_post_json (sample_libs (Inr sample_swap_response))
     (jupiter_api sample_trading_manager @ ''/swap'') sample_quote = Inr sample_swap_response \<and>
   json_getitem sample_swap_response ''swapTransaction'' = Inr (JString sample_swap_b64) \<and>
   b64decode (sample_libs (Inr sample_swap_response)) (JString sample_swap_b64) =
     Inr sample_swap_raw \<and>
   Transaction_deserialize (sample_libs (Inr sample_swap_response)) sample_swap_raw =
     Inr stale_tx \<and>
   execute_trade (sample_libs (Inr sample_swap_response)) sample_trading_manager sample_quote
     sample_wallet False =
   (Inl AttributeError, [HttpPost (jupiter_api sample_trading_manager @ ''/swap'') sample_quote])"
proof -
  let ?L = "sample_libs (Inr sample_swap_response)"
  have b: "http_post_json ?L (jupiter_api sample_trading_manager @ ''/swap'') sample_quote =
             Inr sample_swap_response"
    by (rule sample_post)
  have c: "json_getitem sample_swap_response ''swapTransaction'' = Inr (JString sample_swap_b64)"
    by (simp add: sample_swap_response_def)
  show ?thesis
    using stale_tx_is_stale b c sample_b64decode [of "Inr sample_swap_response"]
      sample_deserialize [of "Inr sample_swap_response"]
      execute_trade_no_freshness_check [OF stale_tx_is_stale b c sample_b64decode
        sample_deserialize, of sample_wallet]
    by (simp add: sample_sign)
qed

text \<open>C8 as stated fails: a transaction anchored to a blockhash that is 1000 slots
  old, against a bound of 150 slots, is not turned down as stale. It is handed to
  \<^verbatim>\<open>wallet.sign_transaction\<close>, and the call ends in the \<^verbatim>\<open>AttributeError\<close> of that line.\<close>

theorem execute_trade_stale_transaction_AttributeError:
  "anchor_older_than sample_chain_age 150 stale_tx \<and>
   Transaction_deserialize (sample_libs (Inr sample_swap_response)) sample_swap_raw =
     Inr stale_tx \<and>
   execute_trade (sample_libs (Inr sample_swap_response)) sample_trading_manager sample_quote
     sample_wallet False =
   (Inl AttributeError, [HttpPost ''https://quote-api.jup.ag/v6/swap'' sample_quote])"
proof -
  have "json_getitem sample_swap_response ''swapTransaction'' = Inr (JString sample_swap_b64)"
    by (simp add: sample_swap_response_def)
  then have "execute_trade (sample_libs (Inr sample_swap_response)) sample_trading_manager
          sample_quote sample_wallet False =
        (Inl AttributeError, [HttpPost ''https://quote-api.jup.ag/v6/swap'' sample_quote])"
    by (simp add: execute_trade_plain sample_post sample_b64decode sample_deserialize
        sample_sign sample_url)
  then show ?thesis
    using stale_tx_is_stale sample_deserialize by simp
qed

section \<open>Properties of the key handling\<close>

lemma char_of_nat_eq_iff: "n < 256 \<Longrightarrow> char_of (n::nat) = c \<longleftrightarrow> n = of_char c"
proof
  assume "n < 256" and "char_of n = c"
  then have "of_char c = n mod 256" by (metis of_char_of)
  with \<open>n < 256\<close> show "n = of_char c" by simp
next
  assume "n = of_char c"
  then show "char_of n = c" by simp
qed

lemma utf8_wellformed_ascii:
  "list_all (\<lambda>c. (of_char c :: nat) < 128) bs \<Longrightarrow> utf8_wellformed (map of_char bs)"
  by (induction bs) simp_all

lemma bytes_decode_ascii:
  "list_all (\<lambda>c. (of_char c :: nat) < 128) bs \<Longrightarrow> bytes_decode bs = Inr bs"
  by (simp add: bytes_decode_def utf8_wellformed_ascii)

lemma str_encode_ascii:
  "list_all (\<lambda>c. (of_char c :: nat) < 128) s \<Longrightarrow> str_encode s = Inr s"
  by (simp add: str_encode_def utf8_wellformed_ascii)


text \<open>What \<^verbatim>\<open>decrypt_private_key\<close> does, by the outcome of the encoding and of Fernet.\<close>

lemma decrypt_private_key_cases:
  "decrypt_private_key self c =
     (case str_encode c of
        Inl e \<Rightarrow> (Inl e, [])
      | Inr t \<Rightarrow>
          (case decrypt (fernet self) t of
             None \<Rightarrow> (Inl InvalidToken, [FernetDecrypt t])
           | Some plain \<Rightarrow> (Inr plain, [FernetDecrypt t])))"
  by (simp add: decrypt_private_key_def split: sum.splits option.splits)

lemmas sample_fernet_defs =
  sample_fernet_def sample_Fernet_def sample_master_key_def sample_security_manager_def
  hex_encode_def hex_digit_def hex_value_def check_digit_def SecurityManager_init_def
  str_encode_def char_of_nat_eq_iff

text \<open>
  C1, as the source has it. There is no scoped key acquisition in the module:
  \<^verbatim>\<open>decrypt_private_key\<close> hands the plaintext that Fernet yields to its caller as its return
  value, after the one call to the library, and nothing overwrites it.
\<close>

theorem decrypt_private_key_returns_plaintext:
  assumes "str_encode c = Inr t"
    and "decrypt (fernet self) t = Some plain"
  shows "decrypt_private_key self c = (Inr plain, [FernetDecrypt t])"
  using assms by (simp add: decrypt_private_key_cases)

theorem decrypt_private_key_returns_plaintext_witness:
  "str_encode ''gAAAAA96b6579'' = Inr ''gAAAAA96b6579'' \<and>
   decrypt (fernet sample_security_manager) ''gAAAAA96b6579'' = Some ''key'' \<and>
   decrypt_private_key sample_security_manager ''gAAAAA96b6579'' =
     (Inr ''key'', [FernetDecrypt ''gAAAAA96b6579''])"
proof -
  have a: "str_encode ''gAAAAA96b6579'' = Inr ''gAAAAA96b6579''"
    by (simp add: str_encode_def)
  have b: "decrypt (fernet sample_security_manager) ''gAAAAA96b6579'' = Some ''key''"
    by (simp add: sample_fernet_defs)
  show ?thesis
    using a b decrypt_private_key_returns_plaintext [OF a b] by simp
qed

text \<open>C1 as stated fails: a public operation returns a plaintext secret key. The stored
  form of the sample wallet's secret key, given to \<^verbatim>\<open>decrypt_private_key\<close>, comes back as
  the secret key itself.\<close>

theorem stored_key_decrypts_to_plaintext:
  "fst (encrypt_private_key sample_security_manager (secret_key sample_wallet)) =
     Inr ''gAAAAAb534543'' \<and>
   fst (decrypt_private_key sample_security_manager ''gAAAAAb534543'') =
     Inr (secret_key sample_wallet)"
  by (simp add: encrypt_private_key_def decrypt_private_key_cases bytes_decode_def
      sample_fernet_defs sample_wallet_def)

text \<open>
  C4. For a security manager built from a master key that Fernet accepts, and a secret
  key \<open>k\<close> on which the Fernet object does what the library documents (the token is
  base64 text, and decrypting it gives \<open>k\<close> back), \<^verbatim>\<open>encrypt_private_key\<close> returns a string
  \<open>c\<close> and \<^verbatim>\<open>decrypt_private_key\<close> of \<open>c\<close> returns \<open>k\<close>: the \<^verbatim>\<open>decode()\<close> and \<^verbatim>\<open>encode()\<close> between
  the two calls lose nothing.
\<close>

theorem encrypt_decrypt_roundtrip:
  assumes "SecurityManager_init F m = Inr self"
    and "decrypt (fernet self) (encrypt (fernet self) k) = Some k"
    and "list_all (\<lambda>c. (of_char c :: nat) < 128) (encrypt (fernet self) k)"
  shows "\<exists>c. fst (encrypt_private_key self k) = Inr c \<and>
             fst (decrypt_private_key self c) = Inr k"
  using assms
  by (simp add: encrypt_private_key_def decrypt_private_key_cases bytes_decode_ascii
      str_encode_ascii)

theorem encrypt_decrypt_roundtrip_witness:
  "SecurityManager_init sample_Fernet sample_master_key = Inr sample_security_manager \<and>
   (\<exists>c. fst (encrypt_private_key sample_security_manager [CHR 0xFF, CHR 0x00, CHR ''k'']) =
          Inr c \<and>
        fst (decrypt_private_key sample_security_manager c) =
          Inr [CHR 0xFF, CHR 0x00, CHR ''k''])"
proof -
  have a: "SecurityManager_init sample_Fernet sample_master_key = Inr sample_security_manager"
    by (simp add: sample_fernet_defs)
  have b: "decrypt (fernet sample_security_manager)
             (encrypt (fernet sample_security_manager) [CHR 0xFF, CHR 0x00, CHR ''k'']) =
           Some [CHR 0xFF, CHR 0x00, CHR ''k'']"
    by (simp add: sample_fernet_defs)
  have c: "list_all (\<lambda>c. (of_char c :: nat) < 128)
             (encrypt (fernet sample_security_manager) [CHR 0xFF, CHR 0x00, CHR ''k''])"
    by (simp add: sample_fernet_defs)
  show ?thesis
    using a encrypt_decrypt_roundtrip [OF a b c] by simp
qed










section \<open>Properties of the token listing\<close>

lemma map_result_Inr: "map f xs = map Inr ys \<Longrightarrow> map_result f xs = Inr ys"
proof (induction xs arbitrary: ys)
  case Nil
  then show ?case by simp
next
  case (Cons x xs)
  then show ?case by (cases ys) auto
qed

lemma numbers_Num: "numbers (map (\<lambda>t. Num (v t)) ts) = Some (map v ts)"
  by (induction ts) simp_all

lemma numbers_NaN: "NaN \<in> set ks \<Longrightarrow> numbers ks = None"
proof (induction ks)
  case Nil
  then show ?case by simp
next
  case (Cons k ks)
  then show ?case by (cases k) (auto split: option.splits)
qed

lemma mset_sort_desc: "mset (sort_desc f xs) = mset xs"
  by (simp add: sort_desc_def)

lemma set_sort_desc: "set (sort_desc f xs) = set xs"
  by (simp add: sort_desc_def)

lemma sorted_sort_desc: "sorted_wrt (\<lambda>a b. f b \<le> f a) (sort_desc f xs)"
proof -
  have "sorted (map f (sort_key f (rev xs)))" by (rule sorted_sort_key)
  then have "sorted_wrt (\<lambda>a b. f a \<le> f b) (sort_key f (rev xs))"
    by (simp add: sorted_map)
  then show ?thesis by (simp add: sort_desc_def sorted_wrt_rev)
qed

lemma stable_sort_desc: "filter (\<lambda>y. f y = k) (sort_desc f xs) = filter (\<lambda>y. f y = k) xs"
proof -
  have "filter (\<lambda>y. f y = k) (sort_desc f xs) = rev (filter (\<lambda>y. f y = k) (sort_key f (rev xs)))"
    by (simp add: sort_desc_def rev_filter)
  also have "\<dots> = rev (filter (\<lambda>y. f y = k) (rev xs))" by (simp only: sort_key_stable)
  also have "\<dots> = filter (\<lambda>y. f y = k) xs" by (simp add: rev_filter)
  finally show ?thesis .
qed

lemma sort_key_same: "(\<And>x. x \<in> set xs \<Longrightarrow> f x = c) \<Longrightarrow> sort_key f xs = xs"
proof (induction xs)
  case Nil
  then show ?case by simp
next
  case (Cons a xs)
  then have "sort_key f xs = xs" by simp
  moreover have "insort_key f a xs = a # xs"
    by (rule insort_is_Cons) (simp add: Cons.prems)
  ultimately show ?case by simp
qed

lemma sort_desc_const: "(\<And>x. x \<in> set xs \<Longrightarrow> f x = c) \<Longrightarrow> sort_desc f xs = xs"
proof -
  assume c: "\<And>x. x \<in> set xs \<Longrightarrow> f x = c"
  have "sort_key f (rev xs) = rev xs" by (rule sort_key_same [of _ _ c]) (simp add: c)
  then show ?thesis by (simp add: sort_desc_def)
qed

text \<open>Sorting the elements paired with their keys is sorting the elements by their
  keys.\<close>

lemma insort_key_decorate:
  "insort_key (\<lambda>p. r (fst p)) (g a, a) (map (\<lambda>t. (g t, t)) xs) =
     map (\<lambda>t. (g t, t)) (insort_key (\<lambda>t. r (g t)) a xs)"
  by (induction xs) simp_all

lemma sort_key_decorate:
  "sort_key (\<lambda>p. r (fst p)) (map (\<lambda>t. (g t, t)) xs) =
     map (\<lambda>t. (g t, t)) (sort_key (\<lambda>t. r (g t)) xs)"
  by (induction xs) (simp_all add: insort_key_decorate)

lemma zip_decorate: "zip (map g ts) ts = map (\<lambda>t. (g t, t)) ts"
  by (induction ts) simp_all

lemma undecorate_sort_desc:
  "map snd (sort_desc (\<lambda>p. r (fst p)) (zip (map g ts) ts)) = sort_desc (\<lambda>t. r (g t)) ts"
proof -
  have "sort_desc (\<lambda>p. r (fst p)) (zip (map g ts) ts) =
          rev (sort_key (\<lambda>p. r (fst p)) (map (\<lambda>t. (g t, t)) (rev ts)))"
    by (simp add: sort_desc_def zip_decorate rev_map)
  also have "\<dots> = map (\<lambda>t. (g t, t)) (sort_desc (\<lambda>t. r (g t)) ts)"
    by (simp only: sort_key_decorate sort_desc_def rev_map)
  finally show ?thesis by (simp add: comp_def)
qed

lemma sort_by_value_numbers:
  assumes "\<And>t. t \<in> set tokens \<Longrightarrow>
             py_float B (case map_of t (PStr ''value'') of None \<Rightarrow> PInt 0 | Some u \<Rightarrow> u) =
               Inr (Num (v t))"
  shows "sort_by_value B tokens = Inr (sort_desc v tokens)"
proof -
  have "map (value_key B) tokens = map Inr (map (\<lambda>t. Num (v t)) tokens)"
    using assms by (simp add: value_key_def dict_get_def)
  then have "map_result (value_key B) tokens = Inr (map (\<lambda>t. Num (v t)) tokens)"
    by (rule map_result_Inr)
  moreover have "map snd (sort_desc fst (zip (map v tokens) tokens)) = sort_desc v tokens"
    using undecorate_sort_desc [of "\<lambda>x. x" v tokens] by simp
  ultimately show ?thesis by (simp add: sort_by_value_def numbers_Num)
qed

lemma rank_PStr_le: "rank (PStr t) \<le> rank (PStr s) \<longleftrightarrow> t \<le> s"
  by (simp add: less_eq_prod_def)

lemma sort_by_date_strings:
  assumes "\<And>t. t \<in> set tokens \<Longrightarrow>
             (case map_of t (PStr ''purchase_date'') of None \<Rightarrow> PStr [] | Some u \<Rightarrow> u) =
               PStr (d t)"
  shows "sort_by_date tokens = Inr (sort_desc (\<lambda>t. rank (date_key t)) tokens)"
proof -
  have "list_all is_PStr (map date_key tokens)"
    using assms by (simp add: list_all_iff date_key_def dict_get_def)
  then have "comparable (map date_key tokens)" by (simp add: comparable_def)
  then show ?thesis
    using undecorate_sort_desc [of rank date_key tokens] by (simp add: sort_by_date_def)
qed

lemma py_slice_page:
  assumes "1 \<le> p"
  shows "py_slice xs ((p - 1) * 20) ((p - 1) * 20 + 20) = take 20 (drop (nat ((p - 1) * 20)) xs)"
proof -
  let ?s = "(p - 1) * 20"
  have nn: "0 \<le> ?s" using assms by simp
  show ?thesis
  proof (cases "?s < int (length xs)")
    case True
    then have "take (nat (min (?s + 20) (int (length xs)) - ?s)) (drop (nat ?s) xs) =
               take 20 (drop (nat ?s) xs)"
      using nn by (cases "?s + 20 \<le> int (length xs)") (simp_all add: min_def)
    then show ?thesis using True nn by (simp add: py_slice_def Let_def min_def)
  next
    case False
    then show ?thesis using nn by (simp add: py_slice_def Let_def min_def)
  qed
qed

lemma wallet_tokens_Inr:
  assumes "keys (redis self) (''tokens:'' @ wallet_id @ '':*'') = Inr token_keys"
    and "map (hgetall (redis self)) token_keys = map Inr tokens"
  shows "wallet_tokens self wallet_id = Inr tokens"
  using assms(1) map_result_Inr [OF assms(2)] by (simp add: wallet_tokens_def)

text \<open>A list has one arrangement that is descending by a key and keeps the elements
  of equal keys in their order.\<close>

lemma stable_descending_unique:
  assumes "mset ys = mset xs"
    and "sorted_wrt (\<lambda>a b. f b \<le> f a) ys"
    and "\<And>k. filter (\<lambda>t. f t = k) ys = filter (\<lambda>t. f t = k) xs"
  shows "ys = sort_desc f xs"
proof -
  have "sort_key f (rev xs) = rev ys"
  proof (rule properties_for_sort_key)
    show "mset (rev ys) = mset (rev xs)" using assms(1) by simp
  next
    fix k
    have "filter (\<lambda>x. f x = f k) (rev ys) = filter (\<lambda>x. f x = f k) (rev xs)"
      using assms(3) [of "f k"] by (simp add: rev_filter [symmetric])
    then show "filter (\<lambda>x. f k = f x) (rev ys) = filter (\<lambda>x. f k = f x) (rev xs)"
      by (simp add: eq_commute)
  next
    have "sorted_wrt (\<lambda>a b. f a \<le> f b) (rev ys)"
      using assms(2) by (simp add: sorted_wrt_rev)
    then show "sorted (map f (rev ys))" by (simp add: sorted_map)
  qed
  then show ?thesis by (simp add: sort_desc_def)
qed

lemmas sample_token_defs =
  sample_builtins_def sample_float_def sample_int_def parse_float_def parse_digits_def
  sample_redis_def sample_token_manager_def sample_bot_def

text \<open>The module opens its Redis client without \<^verbatim>\<open>decode_responses\<close> (line 203), so the
  field names of every hash are \<^verbatim>\<open>bytes\<close>: no hash has a \<^verbatim>\<open>str\<close> field \<^verbatim>\<open>'value'\<close>, every key
  is \<^verbatim>\<open>float(0)\<close>, and sorting by value leaves the store's order.\<close>

lemma get_tokens_bytes_fields:
  assumes "1 \<le> p"
    and "keys (redis self) (''tokens:'' @ wallet_id @ '':*'') = Inr token_keys"
    and "map (hgetall (redis self)) token_keys = map Inr tokens"
    and "\<And>t. t \<in> set tokens \<Longrightarrow> list_all (\<lambda>f. is_PBytes (fst f)) t"
    and "py_float B (PInt 0) = Inr (Num z)"
  shows "get_tokens B self wallet_id (PInt p) ''value'' =
           Inr (take 20 (drop (nat ((p - 1) * 20)) tokens))"
proof -
  have none: "map_of t (PStr ''value'') = None" if "t \<in> set tokens" for t
  proof -
    have "PStr ''value'' \<notin> fst ` set t"
      using assms(4) [OF that] by (fastforce simp: list_all_iff)
    then show ?thesis by (simp add: map_of_eq_None_iff)
  qed
  have "sort_by_value B tokens = Inr (sort_desc (\<lambda>t. z) tokens)"
    by (rule sort_by_value_numbers) (simp add: none assms(5))
  then have "sort_by_value B tokens = Inr tokens" by (simp add: sort_desc_const)
  then show ?thesis
    using wallet_tokens_Inr [OF assms(2,3)] py_slice_page [OF assms(1)]
    by (simp add: get_tokens_def Let_def)
qed

text \<open>When \<^verbatim>\<open>float()\<close> returns NaN for a token, the order is whatever \<^verbatim>\<open>list.sort\<close> leaves.\<close>

lemma get_tokens_nan_key:
  assumes "keys (redis self) (''tokens:'' @ wallet_id @ '':*'') = Inr token_keys"
    and "map (hgetall (redis self)) token_keys = map Inr tokens"
    and "map (\<lambda>t. py_float B (case map_of t (PStr ''value'') of None \<Rightarrow> PInt 0 | Some u \<Rightarrow> u))
           tokens = map Inr ks"
    and "NaN \<in> set ks"
  shows "get_tokens B self wallet_id (PInt p) ''value'' =
           Inr (py_slice (sort_nan_keys B (zip ks tokens)) ((p - 1) * 20) ((p - 1) * 20 + 20))"
proof -
  have "value_key B =
          (\<lambda>t. py_float B (case map_of t (PStr ''value'') of None \<Rightarrow> PInt 0 | Some u \<Rightarrow> u))"
    by (rule ext) (simp add: value_key_def dict_get_def)
  then have "map (value_key B) tokens = map Inr ks"
    using assms(3) by simp
  then have "map_result (value_key B) tokens = Inr ks" by (rule map_result_Inr)
  then have "sort_by_value B tokens = Inr (sort_nan_keys B (zip ks tokens))"
    using numbers_NaN [OF assms(4)] by (simp add: sort_by_value_def)
  then show ?thesis
    using wallet_tokens_Inr [OF assms(1,2)] by (simp add: get_tokens_def Let_def)
qed

text \<open>
  C9. Take a wallet whose keys the store lists and whose hashes it returns (the
  \<open>tokens\<close>, in the store's order), and a page number \<open>p \<ge> 1\<close>. \<^verbatim>\<open>get_tokens\<close> returns the
  items \<open>(p - 1) * 20\<close> up to \<open>p * 20\<close> of an arrangement of these tokens. When \<^verbatim>\<open>sort_by\<close> is
  \<^verbatim>\<open>'value'\<close> and \<^verbatim>\<open>float(x.get('value', 0))\<close> is a number \<open>v x\<close> for every token, the
  arrangement is descending by \<open>v\<close>, tokens of equal value in the store's order. When
  \<^verbatim>\<open>sort_by\<close> is \<^verbatim>\<open>'date'\<close> and \<^verbatim>\<open>x.get('purchase_date', '')\<close> is a string \<open>d x\<close> for every token,
  it is descending by \<open>d\<close>, tokens of equal date in the store's order. For any other
  \<^verbatim>\<open>sort_by\<close> it is the store's order. The claim holds with these conditions only: a value
  that \<^verbatim>\<open>float()\<close> does not parse makes the call raise \<^verbatim>\<open>ValueError\<close>.
\<close>

theorem get_tokens_sorted_page:
  assumes "1 \<le> p"
    and "keys (redis self) (''tokens:'' @ wallet_id @ '':*'') = Inr token_keys"
    and "map (hgetall (redis self)) token_keys = map Inr tokens"
    and "sort_by = ''value'' \<longrightarrow>
           (\<forall>t \<in> set tokens.
              py_float B (case map_of t (PStr ''value'') of None \<Rightarrow> PInt 0 | Some u \<Rightarrow> u) =
                Inr (Num (v t)))"
    and "sort_by = ''date'' \<longrightarrow>
           (\<forall>t \<in> set tokens.
              (case map_of t (PStr ''purchase_date'') of None \<Rightarrow> PStr [] | Some u \<Rightarrow> u) =
                PStr (d t))"
  shows "\<exists>ordered.
           get_tokens B self wallet_id (PInt p) sort_by =
             Inr (take 20 (drop (nat ((p - 1) * 20)) ordered)) \<and>
           mset ordered = mset tokens \<and>
           (if sort_by = ''value'' then
              sorted_wrt (\<lambda>a b. v b \<le> v a) ordered \<and>
              (\<forall>k. filter (\<lambda>t. v t = k) ordered = filter (\<lambda>t. v t = k) tokens)
            else if sort_by = ''date'' then
              sorted_wrt (\<lambda>a b. d b \<le> d a) ordered \<and>
              (\<forall>k. filter (\<lambda>t. d t = k) ordered = filter (\<lambda>t. d t = k) tokens)
            else ordered = tokens)"
proof -
  have wt: "wallet_tokens self wallet_id = Inr tokens"
    using assms(2,3) by (rule wallet_tokens_Inr)
  have page: "get_tokens B self wallet_id (PInt p) sort_by =
                Inr (take 20 (drop (nat ((p - 1) * 20)) ordered))"
    if "(if sort_by = ''value'' then sort_by_value B tokens
         else if sort_by = ''date'' then sort_by_date tokens
         else Inr tokens) = Inr ordered" for ordered
    using that wt py_slice_page [OF assms(1), of ordered]
    by (simp add: get_tokens_def Let_def)
  show ?thesis
  proof (cases "sort_by = ''value''")
    case True
    let ?o = "sort_desc v tokens"
    have "sort_by_value B tokens = Inr ?o"
      using assms(4) True by (intro sort_by_value_numbers) simp
    then have "get_tokens B self wallet_id (PInt p) sort_by =
                 Inr (take 20 (drop (nat ((p - 1) * 20)) ?o))"
      using True by (intro page) simp
    moreover have "mset ?o = mset tokens" by (rule mset_sort_desc)
    moreover have "sorted_wrt (\<lambda>a b. v b \<le> v a) ?o" by (rule sorted_sort_desc)
    moreover have "\<forall>k. filter (\<lambda>t. v t = k) ?o = filter (\<lambda>t. v t = k) tokens"
      by (simp add: stable_sort_desc)
    ultimately show ?thesis using True by auto
  next
    case False
    show ?thesis
    proof (cases "sort_by = ''date''")
      case True
      let ?f = "\<lambda>t. rank (date_key t)"
      let ?o = "sort_desc ?f tokens"
      have dk: "date_key t = PStr (d t)" if "t \<in> set tokens" for t
        using assms(5) True that by (simp add: date_key_def dict_get_def)
      have "sort_by_date tokens = Inr ?o"
        using assms(5) True by (intro sort_by_date_strings) simp
      then have "get_tokens B self wallet_id (PInt p) sort_by =
                   Inr (take 20 (drop (nat ((p - 1) * 20)) ?o))"
        using True False by (intro page) simp
      moreover have "mset ?o = mset tokens" by (rule mset_sort_desc)
      moreover have "sorted_wrt (\<lambda>a b. d b \<le> d a) ?o"
      proof (rule sorted_wrt_mono_rel [OF _ sorted_sort_desc [of ?f tokens]])
        fix a b
        assume "a \<in> set ?o" "b \<in> set ?o" "rank (date_key b) \<le> rank (date_key a)"
        then show "d b \<le> d a" by (simp add: set_sort_desc dk rank_PStr_le)
      qed
      moreover have "filter (\<lambda>t. d t = k) ?o = filter (\<lambda>t. d t = k) tokens" for k
      proof -
        have "filter (\<lambda>t. d t = k) ?o = filter (\<lambda>t. ?f t = rank (PStr k)) ?o"
          by (rule filter_cong) (auto simp: set_sort_desc dk)
        also have "\<dots> = filter (\<lambda>t. ?f t = rank (PStr k)) tokens" by (rule stable_sort_desc)
        also have "\<dots> = filter (\<lambda>t. d t = k) tokens"
          by (rule filter_cong) (auto simp: dk)
        finally show ?thesis .
      qed
      ultimately show ?thesis using True False by auto
    next
      case other: False
      have "get_tokens B self wallet_id (PInt p) sort_by =
              Inr (take 20 (drop (nat ((p - 1) * 20)) tokens))"
        using False other by (intro page) simp
      then show ?thesis using False other by auto
    qed
  qed
qed

lemmas sample_store_defs =
  sample_token_defs sol_token_def usdc_token_def bonk_token_def junk_token_def
  sample_value_def

text \<open>The theorem at the wallet \<open>42\<close> of the sample store, which lists SOL (150), USDC
  (200) and BONK (7) in this order: the first page by value is USDC, SOL, BONK.\<close>

theorem get_tokens_sorted_page_witness:
  "(1::int) \<le> 1 \<and>
   keys (redis sample_token_manager) (''tokens:'' @ ''42'' @ '':*'') =
     Inr [PStr ''tokens:42:SOL'', PStr ''tokens:42:USDC'', PStr ''tokens:42:BONK''] \<and>
   map (hgetall (redis sample_token_manager))
     [PStr ''tokens:42:SOL'', PStr ''tokens:42:USDC'', PStr ''tokens:42:BONK''] =
     map Inr [sol_token, usdc_token, bonk_token] \<and>
   list_all
     (\<lambda>t. py_float sample_builtins
            (case map_of t (PStr ''value'') of None \<Rightarrow> PInt 0 | Some u \<Rightarrow> u) =
          Inr (Num (sample_value t)))
     [sol_token, usdc_token, bonk_token] \<and>
   get_tokens sample_builtins sample_token_manager ''42'' (PInt 1) ''value'' =
     Inr [usdc_token, sol_token, bonk_token]"
proof -
  let ?tokens = "[sol_token, usdc_token, bonk_token]"
  have a: "(1::int) \<le> 1" by simp
  have b: "keys (redis sample_token_manager) (''tokens:'' @ ''42'' @ '':*'') =
             Inr [PStr ''tokens:42:SOL'', PStr ''tokens:42:USDC'', PStr ''tokens:42:BONK'']"
    by (simp add: sample_token_defs)
  have c: "map (hgetall (redis sample_token_manager))
             [PStr ''tokens:42:SOL'', PStr ''tokens:42:USDC'', PStr ''tokens:42:BONK''] =
           map Inr ?tokens"
    by (simp add: sample_token_defs)
  have d: "\<forall>t \<in> set ?tokens.
             py_float sample_builtins
               (case map_of t (PStr ''value'') of None \<Rightarrow> PInt 0 | Some u \<Rightarrow> u) =
             Inr (Num (sample_value t))"
    by (simp add: sample_store_defs)
  have d': "''value'' = ''value'' \<longrightarrow>
            (\<forall>t \<in> set ?tokens.
               py_float sample_builtins
                 (case map_of t (PStr ''value'') of None \<Rightarrow> PInt 0 | Some u \<Rightarrow> u) =
               Inr (Num (sample_value t)))"
    using d by simp
  have e: "''value'' = ''date'' \<longrightarrow>
           (\<forall>t \<in> set ?tokens.
              (case map_of t (PStr ''purchase_date'') of None \<Rightarrow> PStr [] | Some u \<Rightarrow> u) =
              PStr (undefined t))"
    by simp
  from get_tokens_sorted_page [OF a b c d' e] obtain ordered where
    page: "get_tokens sample_builtins sample_token_manager ''42'' (PInt 1) ''value'' =
             Inr (take 20 (drop (nat ((1 - 1) * 20)) ordered))"
    and perm: "mset ordered = mset ?tokens"
    and desc: "sorted_wrt (\<lambda>a b. sample_value b \<le> sample_value a) ordered"
    and stable: "\<And>k. filter (\<lambda>t. sample_value t = k) ordered =
                       filter (\<lambda>t. sample_value t = k) ?tokens"
    by auto
  from perm desc stable have "ordered = sort_desc sample_value ?tokens"
    by (rule stable_descending_unique)
  also have "\<dots> = [usdc_token, sol_token, bonk_token]"
    by (simp add: sort_desc_def sample_store_defs)
  finally have o: "ordered = [usdc_token, sol_token, bonk_token]" .
  from page have "get_tokens sample_builtins sample_token_manager ''42'' (PInt 1) ''value'' =
                    Inr [usdc_token, sol_token, bonk_token]"
    unfolding o by simp
  with a b c d show ?thesis by (simp add: list_all_iff)
qed

text \<open>C9 as stated fails for the wallet \<open>7\<close>, whose one token has the value \<^verbatim>\<open>'n/a'\<close>:
  \<^verbatim>\<open>float()\<close> raises \<^verbatim>\<open>ValueError\<close> inside the sort, and the call returns no tokens.\<close>

theorem get_tokens_unparsable_value_ValueError:
  "get_tokens sample_builtins sample_token_manager ''7'' (PInt 1) ''value'' = Inl ValueError"
  by (simp add: get_tokens_def wallet_tokens_def sort_by_value_def value_key_def dict_get_def
      Let_def sample_store_defs)

section \<open>Properties of the bot's handlers\<close>

text \<open>
  C7. \<^verbatim>\<open>create_wallet_command\<close> writes nothing to the store, whatever the update: its
  only calls are the encryption and the reply. The dictionary \<^verbatim>\<open>wallet_data\<close> it builds
  under the comment "Store encrypted private key" is dropped when the handler returns,
  so no encrypted key record exists to be read back, although the reply says the key
  was stored.
\<close>

theorem create_wallet_command_stores_nothing:
  "filter is_store_write (snd (create_wallet_command W self upd ctx)) = []"
  by (simp add: create_wallet_command_def Let_def encrypt_private_key_def user_id_of_def
      reply_text_def io_bind_pair split: sum.splits option.splits)

text \<open>The handler on the sample bot, for user 42: the whole log is the encryption and
  the reply.\<close>

lemma create_wallet_command_sample:
  "create_wallet_command sample_wallet_libs sample_bot
     \<lparr> effective_user = Some 42, message = Some 7, callback_query = None \<rparr>
     \<lparr> args = Some [] \<rparr> =
   (Inr (),
    [FernetEncrypt ''SEC'',
     ReplyText
       (''Wallet created!'' @ [CHR 0x0A] @ ''Public Key: PUB'' @ [CHR 0x0A, CHR 0x0A] @
        ''Your private key has been encrypted and stored securely.'')
       None])"
  by (simp add: create_wallet_command_def Let_def encrypt_private_key_def user_id_of_def
      reply_text_def bytes_decode_def sample_fernet_defs sample_wallet_def sample_bot_def
      sample_wallet_libs_def)

lemma nat_digits_digit: "n < 10 \<Longrightarrow> nat_digits n = [char_of (48 + n)]"
  by (subst nat_digits.simps) simp

lemma nat_digits_more:
  "10 \<le> n \<Longrightarrow> nat_digits n = nat_digits (n div 10) @ [char_of (48 + n mod 10)]"
  by (subst nat_digits.simps) simp

lemma str_int_small:
  "str_int 0 = ''0''" "str_int 1 = ''1''" "str_int 2 = ''2''" "str_int 42 = ''42''"
  by (simp_all add: str_int_def nat_digits_digit nat_digits_more char_of_nat_eq_iff)

lemma nat_digits_no_underscore: "CHR ''_'' \<notin> set (nat_digits n)"
proof (induction n rule: nat_digits.induct)
  case (1 n)
  have d: "char_of (48 + k) \<noteq> CHR ''_''" if "k < 10" for k :: nat
    using that by (simp add: char_of_nat_eq_iff)
  show ?case
  proof (cases "n < 10")
    case True
    then show ?thesis using d [of n] by (subst nat_digits.simps) simp
  next
    case False
    then show ?thesis
      using "1.IH" d [of "n mod 10"] by (subst nat_digits.simps) simp
  qed
qed

lemma str_int_no_underscore: "CHR ''_'' \<notin> set (str_int i)"
  by (simp add: str_int_def nat_digits_no_underscore)

lemma py_split_append:
  "sep \<notin> set a \<Longrightarrow> py_split sep (a @ sep # b) = a # py_split sep b"
  by (induction a) auto

lemma py_split_not_Nil: "py_split sep s \<noteq> []"
  by (induction s) (simp_all split: list.splits)

text \<open>The data of a button splits into \<^verbatim>\<open>list\<close>, the page and at least one more
  field.\<close>

lemma button_data_fields:
  "\<exists>s rest. py_split (CHR ''_'') (''list_'' @ str_int i @ ''_'' @ sort_by) =
             ''list'' # str_int i # s # rest"
proof -
  obtain s rest where sr: "py_split (CHR ''_'') sort_by = s # rest"
    using py_split_not_Nil [of "CHR ''_''" sort_by] by (cases "py_split (CHR ''_'') sort_by") auto
  have "py_split (CHR ''_'') (''list'' @ CHR ''_'' # (str_int i @ CHR ''_'' # sort_by)) =
          ''list'' # py_split (CHR ''_'') (str_int i @ CHR ''_'' # sort_by)"
    by (rule py_split_append) simp
  also have "py_split (CHR ''_'') (str_int i @ CHR ''_'' # sort_by) =
          str_int i # py_split (CHR ''_'') sort_by"
    by (rule py_split_append) (rule str_int_no_underscore)
  finally show ?thesis using sr by simp
qed

lemma pagination_keyboard_buttons:
  assumes "pagination_keyboard page sort_by = Inr kb" and "(label, d) \<in> set (concat kb)"
  shows "\<exists>i s rest. py_split (CHR ''_'') d = ''list'' # str_int i # s # rest"
proof -
  from assms(1) obtain p where p: "page = PInt p"
    by (cases page) (simp_all add: pagination_keyboard_def)
  from assms(1) p have kb:
    "kb = [[(''Previous'', ''list_'' @ str_int (p - 1) @ ''_'' @ sort_by),
            (''Next'', ''list_'' @ str_int (p + 1) @ ''_'' @ sort_by)],
           [(''Sort by Value'', ''list_'' @ str_int p @ ''_'' @ ''value''),
            (''Sort by Date'', ''list_'' @ str_int p @ ''_'' @ ''date'')]]"
    by (simp add: pagination_keyboard_def)
  from assms(2) have
    "d = ''list_'' @ str_int (p - 1) @ ''_'' @ sort_by \<or>
     d = ''list_'' @ str_int (p + 1) @ ''_'' @ sort_by \<or>
     d = ''list_'' @ str_int p @ ''_'' @ ''value'' \<or>
     d = ''list_'' @ str_int p @ ''_'' @ ''date''"
    unfolding kb by auto
  then consider
      (prev) "d = ''list_'' @ str_int (p - 1) @ ''_'' @ sort_by"
    | (nxt) "d = ''list_'' @ str_int (p + 1) @ ''_'' @ sort_by"
    | (val) "d = ''list_'' @ str_int p @ ''_'' @ ''value''"
    | (dat) "d = ''list_'' @ str_int p @ ''_'' @ ''date''"
    by blast
  then show ?thesis
  proof cases
    case prev
    from button_data_fields [of "p - 1" sort_by] show ?thesis unfolding prev by (rule exI)
  next
    case nxt
    from button_data_fields [of "p + 1" sort_by] show ?thesis unfolding nxt by (rule exI)
  next
    case val
    from button_data_fields [of p "''value''"] show ?thesis unfolding val by (rule exI)
  next
    case dat
    from button_data_fields [of p "''date''"] show ?thesis unfolding dat by (rule exI)
  qed
qed

text \<open>What \<^verbatim>\<open>list_tokens_command\<close> does, by the arguments of the context. Only the
  empty list of arguments leads to a listing: an argument makes \<^verbatim>\<open>page\<close> a \<^verbatim>\<open>str\<close>, on
  which \<^verbatim>\<open>page - 1\<close> raises, and \<^verbatim>\<open>len(None)\<close> raises.\<close>

lemma get_tokens_str_page: "get_tokens B tm wallet_id (PStr x) sort_by = Inl TypeError"
  by (simp add: get_tokens_def)

lemma first_page_keyboard:
  "pagination_keyboard (PInt 1) ''value'' =
     Inr [[(''Previous'', ''list_0_value''), (''Next'', ''list_2_value'')],
          [(''Sort by Value'', ''list_1_value''), (''Sort by Date'', ''list_1_date'')]]"
  by (simp add: pagination_keyboard_def str_int_small)

lemma list_tokens_command_cases:
  "list_tokens_command B self upd ctx =
     (case effective_user upd of
        None \<Rightarrow> (Inl AttributeError, [])
      | Some uid \<Rightarrow>
          (case args ctx of
             Some [] \<Rightarrow>
               (case get_tokens B (bot_token_manager self) (str_int uid) (PInt 1) ''value'' of
                  Inl e \<Rightarrow> (Inl e, [])
                | Inr tokens \<Rightarrow>
                    if tokens = [] then
                      (case message upd of
                         None \<Rightarrow> (Inl AttributeError, [])
                       | Some m \<Rightarrow> (Inr (), [ReplyText ''No tokens found.'' None]))
                    else
                      (case token_list_message B (''Your tokens:'' @ [CHR 0x0A, CHR 0x0A]) tokens of
                         Inl e \<Rightarrow> (Inl e, [])
                       | Inr msg \<Rightarrow>
                           (case message upd of
                              None \<Rightarrow> (Inl AttributeError, [])
                            | Some m \<Rightarrow>
                                (Inr (),
                                 [ReplyText msg
                                    (Some [[(''Previous'', ''list_0_value''),
                                            (''Next'', ''list_2_value'')],
                                           [(''Sort by Value'', ''list_1_value''),
                                            (''Sort by Date'', ''list_1_date'')]])]))))
           | _ \<Rightarrow> (Inl TypeError, [])))"
proof (cases "effective_user upd")
  case None
  then show ?thesis by (simp add: list_tokens_command_def user_id_of_def)
next
  case (Some uid)
  show ?thesis
  proof (cases "args ctx")
    case None
    then show ?thesis
      using Some by (simp add: list_tokens_command_def user_id_of_def sort_of_args_def)
  next
    case some_args: (Some xs)
    show ?thesis
    proof (cases xs)
      case Nil
      then show ?thesis
        using Some some_args
        by (simp add: list_tokens_command_def user_id_of_def sort_of_args_def page_of_args_def
            first_page_keyboard reply_text_def split: sum.splits option.splits)
    next
      case (Cons x rest)
      then show ?thesis
        using Some some_args
        by (simp add: list_tokens_command_def user_id_of_def sort_of_args_def page_of_args_def
            get_tokens_str_page)
    qed
  qed
qed



text \<open>A press as Telegram delivers it ends in \<^verbatim>\<open>TypeError\<close>, at \<^verbatim>\<open>len(context.args)\<close>:
  nothing is listed.\<close>

lemma handle_callback_real_press:
  "handle_callback sample_builtins sample_bot sample_callback_update sample_callback_context =
     (Inl TypeError, [])"
  by (simp add: handle_callback_def py_index_def Let_def list_tokens_command_cases
      sample_callback_update_def sample_callback_context_def sample_token_defs)



end
